theory Spec2Isabelle
  imports Main "HOL-Library.Word"
begin

section \<open>Execution history loader (WebhookDetailsPage)\<close>

text \<open>
  The page component of \<^verbatim>\<open>src/unnamed/part_003\<close> keeps the paginated execution history
  in React state cells (\<^verbatim>\<open>useState\<close>) and mirrors three flags into refs (\<^verbatim>\<open>useRef\<close>).
  A state cell is a field of the record below; a ref is a field of its own, since the
  source writes refs only in the ref-sync effects and reads them only in the
  \<^verbatim>\<open>loadMore\<close> guard. The page size is the literal 20 of the source.

  Only the \<^verbatim>\<open>id\<close> of an execution (field \<open>exec_id\<close>) matters to the loader; the
  other wire fields are used by the display transformation further below. An optional
  wire field is an \<open>option\<close>; a date is the instant it denotes, in milliseconds.
\<close>

record JobExecution =
  exec_id :: string
  status :: string
  response_code :: "int option"
  response_body :: "string option"
  duration_ms :: "int option"
  attempt :: "int option"
  error :: "string option"
  created_at :: int
  started_at :: "int option"
  finished_at :: "int option"

record PaginatedJobExecutionsResponse =
  data :: "JobExecution list"
  meta_total :: nat

record LoaderState =
  isRefreshing :: bool
  loadedExecutions :: "JobExecution list"
  totalExecutions :: nat
  currentOffset :: nat
  hasMore :: bool
  isLoadingMore :: bool
  hasMoreRef :: bool
  isLoadingMoreRef :: bool
  isLoadingMoreExecutionsRef :: bool

text \<open>The values of \<^verbatim>\<open>useState(...)\<close> and \<^verbatim>\<open>useRef(...)\<close> at mount.\<close>

definition initialState :: LoaderState where
  "initialState =
     \<lparr> isRefreshing = False, loadedExecutions = [], totalExecutions = 0,
       currentOffset = 0, hasMore = True, isLoadingMore = False,
       hasMoreRef = True, isLoadingMoreRef = False, isLoadingMoreExecutionsRef = False \<rparr>"

text \<open>
  \<^verbatim>\<open>loadMoreOffset\<close>: the offset handed to the second \<^verbatim>\<open>useJobExecutions\<close> call,
  \<^verbatim>\<open>undefined\<close> (None) while \<^verbatim>\<open>currentOffset\<close> is 0.
\<close>

definition loadMoreOffset :: "LoaderState \<Rightarrow> nat option" where
  "loadMoreOffset s = (if currentOffset s > 0 then Some (currentOffset s) else None)"

text \<open>
  The three "keep refs in sync with state" effects. The third copies the
  \<^verbatim>\<open>isLoading\<close> flag of the load-more query, which the query library supplies.
\<close>

definition syncRefs :: "bool \<Rightarrow> LoaderState \<Rightarrow> LoaderState" where
  "syncRefs isLoadingMoreExecutions s =
     s\<lparr> hasMoreRef := hasMore s,
        isLoadingMoreRef := isLoadingMore s,
        isLoadingMoreExecutionsRef := isLoadingMoreExecutions \<rparr>"

text \<open>
  The "initialize loaded executions" effect, run with the current \<^verbatim>\<open>executionsData\<close>
  (None for \<^verbatim>\<open>undefined\<close>).
\<close>

definition initializeEffect ::
    "PaginatedJobExecutionsResponse option \<Rightarrow> LoaderState \<Rightarrow> LoaderState" where
  "initializeEffect executionsData s =
     (case executionsData of
        None \<Rightarrow> s
      | Some d \<Rightarrow>
          if currentOffset s = 0 \<and> length (loadedExecutions s) = 0 then
            s\<lparr> loadedExecutions := data d, totalExecutions := meta_total d,
               hasMore := (length (data d) = 20), isLoadingMore := False \<rparr>
          else if currentOffset s = 0 \<and> isRefreshing s then
            s\<lparr> loadedExecutions := data d, totalExecutions := meta_total d,
               hasMore := (length (data d) = 20), isLoadingMore := False \<rparr>
          else s)"

text \<open>
  The "append more executions" effect, run with the current \<^verbatim>\<open>moreExecutionsData\<close>.
  \<^verbatim>\<open>existingIds\<close> is the JavaScript \<^verbatim>\<open>Set\<close> of the ids already loaded.
\<close>

definition appendNew :: "JobExecution list \<Rightarrow> JobExecution list \<Rightarrow> JobExecution list" where
  "appendNew prev page =
     (let existingIds = set (map exec_id prev);
          newExecutions = filter (\<lambda>e. exec_id e \<notin> existingIds) page
      in prev @ newExecutions)"

definition appendEffect ::
    "PaginatedJobExecutionsResponse option \<Rightarrow> LoaderState \<Rightarrow> LoaderState" where
  "appendEffect moreExecutionsData s =
     (case moreExecutionsData of
        None \<Rightarrow> s
      | Some d \<Rightarrow>
          if currentOffset s > 0 \<and> length (data d) > 0 then
            s\<lparr> loadedExecutions := appendNew (loadedExecutions s) (data d),
               hasMore := (length (data d) = 20), isLoadingMore := False \<rparr>
          else if currentOffset s > 0 \<and> length (data d) = 0 then
            s\<lparr> hasMore := False, isLoadingMore := False \<rparr>
          else s)"

text \<open>\<^verbatim>\<open>loadMore\<close>: the guard reads the three refs, the updates go to the state cells.\<close>

definition loadMore :: "LoaderState \<Rightarrow> LoaderState" where
  "loadMore s =
     (if \<not> isLoadingMoreRef s \<and> hasMoreRef s \<and> \<not> isLoadingMoreExecutionsRef s then
        s\<lparr> isLoadingMore := True, currentOffset := currentOffset s + 20 \<rparr>
      else s)"

text \<open>The "reset when webhook ID changes" effect.\<close>

definition resetOnIdChange :: "LoaderState \<Rightarrow> LoaderState" where
  "resetOnIdChange s =
     s\<lparr> loadedExecutions := [], totalExecutions := 0, currentOffset := 0,
        hasMore := True, isLoadingMore := False \<rparr>"

text \<open>
  The refresh button's handler, in its two synchronous halves: the part before the
  first \<^verbatim>\<open>await\<close>, and the part after \<^verbatim>\<open>refetchExecutions()\<close> has resolved with
  \<^verbatim>\<open>result.data\<close> (None when the refetch produced no data), including the
  \<^verbatim>\<open>finally\<close> block.
\<close>

definition refreshStart :: "LoaderState \<Rightarrow> LoaderState" where
  "refreshStart s =
     s\<lparr> isRefreshing := True, currentOffset := 0, hasMore := True,
        isLoadingMore := False, loadedExecutions := [] \<rparr>"

definition refreshFinish ::
    "PaginatedJobExecutionsResponse option \<Rightarrow> LoaderState \<Rightarrow> LoaderState" where
  "refreshFinish result s =
     (case result of
        Some d \<Rightarrow>
          if length (data d) > 0 then
            s\<lparr> loadedExecutions := data d, totalExecutions := meta_total d,
               hasMore := (length (data d) = 20), isRefreshing := False \<rparr>
          else s\<lparr> totalExecutions := 0, hasMore := False, isRefreshing := False \<rparr>
      | None \<Rightarrow> s\<lparr> totalExecutions := 0, hasMore := False, isRefreshing := False \<rparr>)"

text \<open>
  Loader operations as events. Each event is one handler or effect body of the
  component, run on the committed state; the data an effect sees comes from the query
  library and is the event's argument.
\<close>

datatype event =
    InitialData PaginatedJobExecutionsResponse
  | MoreData PaginatedJobExecutionsResponse
  | SyncRefs bool
  | LoadMore
  | IdChange
  | RefreshStart
  | RefreshFinish "PaginatedJobExecutionsResponse option"

fun step :: "event \<Rightarrow> LoaderState \<Rightarrow> LoaderState" where
  "step (InitialData d) s = initializeEffect (Some d) s"
| "step (MoreData d) s = appendEffect (Some d) s"
| "step (SyncRefs l) s = syncRefs l s"
| "step LoadMore s = loadMore s"
| "step IdChange s = resetOnIdChange s"
| "step RefreshStart s = refreshStart s"
| "step (RefreshFinish r) s = refreshFinish r s"

fun run :: "event list \<Rightarrow> LoaderState \<Rightarrow> LoaderState" where
  "run [] s = s"
| "run (e # es) s = run es (step e s)"

text \<open>
  The pages an event carries. Execution ids are unique in the execution store, so a
  single page, being a list of different stored records, repeats no id.
\<close>

fun eventPage :: "event \<Rightarrow> JobExecution list" where
  "eventPage (InitialData d) = data d"
| "eventPage (MoreData d) = data d"
| "eventPage (RefreshFinish (Some d)) = data d"
| "eventPage _ = []"

definition uniqueIds :: "JobExecution list \<Rightarrow> bool" where
  "uniqueIds xs = distinct (map exec_id xs)"

fun pagesUnique :: "event list \<Rightarrow> bool" where
  "pagesUnique [] = True"
| "pagesUnique (e # es) = (uniqueIds (eventPage e) \<and> pagesUnique es)"

text \<open>
  The guard of \<^verbatim>\<open>loadMore\<close> as a predicate, and two counters over a history of
  operations: the \<^verbatim>\<open>loadMore\<close> calls that passed the guard since the last reset
  (mount, id change, refresh), and the page fetches that have completed.
\<close>

definition guardOpen :: "LoaderState \<Rightarrow> bool" where
  "guardOpen s = (\<not> isLoadingMoreRef s \<and> hasMoreRef s \<and> \<not> isLoadingMoreExecutionsRef s)"

fun loadMoresSinceReset :: "event list \<Rightarrow> LoaderState \<Rightarrow> nat \<Rightarrow> nat" where
  "loadMoresSinceReset [] s n = n"
| "loadMoresSinceReset (e # es) s n =
     loadMoresSinceReset es (step e s)
       (case e of
          LoadMore \<Rightarrow> if guardOpen s then n + 1 else n
        | IdChange \<Rightarrow> 0
        | RefreshStart \<Rightarrow> 0
        | _ \<Rightarrow> n)"

fun completedFetches :: "event list \<Rightarrow> nat" where
  "completedFetches [] = 0"
| "completedFetches (InitialData d # es) = Suc (completedFetches es)"
| "completedFetches (MoreData d # es) = Suc (completedFetches es)"
| "completedFetches (RefreshFinish (Some d) # es) = Suc (completedFetches es)"
| "completedFetches (e # es) = completedFetches es"

section \<open>Display transformation, badges and summary statistics\<close>

text \<open>
  \<^verbatim>\<open>transformExecution\<close> of \<^verbatim>\<open>src/unnamed/part_003\<close>. \<^verbatim>\<open>a || b\<close> takes \<open>b\<close> when
  \<open>a\<close> is falsy: an absent response code and the code 0 are both falsy.
  \<^verbatim>\<open>JSON.parse\<close> followed by \<^verbatim>\<open>JSON.stringify(_, null, 2)\<close> is the parameter
  \<open>reformatJson\<close>, None where \<^verbatim>\<open>JSON.parse\<close> throws.
\<close>

definition statusCodeOf :: "JobExecution \<Rightarrow> int" where
  "statusCodeOf execution =
     (case response_code execution of
        Some c \<Rightarrow>
          if c \<noteq> 0 then c
          else (if status execution = ''success'' then 200
                else if status execution = ''failure'' then 500 else 0)
      | None \<Rightarrow>
          (if status execution = ''success'' then 200
           else if status execution = ''failure'' then 500 else 0))"

record DisplayExecution =
  d_id :: string
  timestamp :: int
  startedAt :: "int option"
  finishedAt :: "int option"
  d_status :: string
  statusCode :: int
  duration :: "int option"
  d_attempt :: "int option"
  d_error :: "string option"
  responseStatus :: int
  responseBody :: "string option"

definition transformExecution ::
    "(string \<Rightarrow> string option) \<Rightarrow> JobExecution \<Rightarrow> DisplayExecution" where
  "transformExecution reformatJson execution =
     (let statusCode = statusCodeOf execution;
          responseBody =
            (case response_body execution of
               None \<Rightarrow> None
             | Some b \<Rightarrow>
                 if b \<noteq> [] then
                   (case reformatJson b of Some pretty \<Rightarrow> Some pretty | None \<Rightarrow> Some b)
                 else Some b)
      in \<lparr> d_id = exec_id execution,
           timestamp = created_at execution,
           startedAt = started_at execution,
           finishedAt = finished_at execution,
           d_status =
             (if status execution = ''success'' then ''success''
              else if status execution = ''failure'' then ''error''
              else if status execution = ''timed_out'' then ''timeout''
              else if status execution = ''queued'' then ''queued''
              else if status execution = ''running'' then ''running''
              else ''error''),
           statusCode = statusCode,
           duration = duration_ms execution,
           d_attempt = attempt execution,
           d_error = error execution,
           responseStatus = statusCode,
           responseBody = responseBody \<rparr>)"

text \<open>
  The \<^verbatim>\<open>executions\<close> memo: the loaded records transformed and sorted by timestamp,
  newest first (\<^verbatim>\<open>Array.prototype.sort\<close> is stable, as \<open>sort_key\<close> is).
\<close>

definition executions ::
    "(string \<Rightarrow> string option) \<Rightarrow> JobExecution list \<Rightarrow> DisplayExecution list" where
  "executions reformatJson loaded =
     (if length loaded = 0 then []
      else sort_key (\<lambda>e. - timestamp e) (map (transformExecution reformatJson) loaded))"

text \<open>
  \<^verbatim>\<open>summaryStats\<close>. The two \<^verbatim>\<open>Math.round\<close> expressions are floating-point
  computations and enter as parameters: \<open>roundQuot a n\<close> for \<^verbatim>\<open>Math.round(a / n)\<close> and
  \<open>roundPercent k n\<close> for \<^verbatim>\<open>Math.round((k / n) * 100)\<close>.
\<close>

record SummaryStats =
  total :: nat
  success :: nat
  errorCount :: nat
  avgDuration :: int
  successRate :: int

definition summaryStats ::
    "(int \<Rightarrow> nat \<Rightarrow> int) \<Rightarrow> (nat \<Rightarrow> nat \<Rightarrow> int) \<Rightarrow> DisplayExecution list \<Rightarrow> SummaryStats" where
  "summaryStats roundQuot roundPercent execs =
     (let total = length execs;
          success = length (filter (\<lambda>e. statusCode e \<ge> 200 \<and> statusCode e < 300) execs);
          error = total - success;
          executionsWithDuration = filter (\<lambda>e. duration e \<noteq> None) execs;
          avgDuration =
            (if length executionsWithDuration > 0 then
               roundQuot
                 (foldl (\<lambda>sum e. sum + (case duration e of Some d \<Rightarrow> d | None \<Rightarrow> 0)) 0
                    executionsWithDuration)
                 (length executionsWithDuration)
             else 0);
          successRate = (if total > 0 then roundPercent success total else 0)
      in \<lparr> total = total, success = success, errorCount = error,
           avgDuration = avgDuration, successRate = successRate \<rparr>)"

text \<open>
  \<^verbatim>\<open>chartData\<close>: one bar for each of the first 30 executions; the bar's
  \<^verbatim>\<open>status\<close> is computed from the status code. The formatted timestamp is left out.
\<close>

record ChartBar =
  bar_number :: nat
  bar_duration :: int
  bar_status :: string
  bar_statusCode :: int

definition chartData :: "DisplayExecution list \<Rightarrow> ChartBar list" where
  "chartData execs =
     map (\<lambda>(exec, index).
            \<lparr> bar_number = length execs - index,
              bar_duration = (case duration exec of Some d \<Rightarrow> d | None \<Rightarrow> 0),
              bar_status =
                (if statusCode exec \<ge> 200 \<and> statusCode exec < 300 then ''success''
                 else ''error''),
              bar_statusCode = statusCode exec \<rparr>)
         (zip (take 30 execs) [0 ..< 30])"

text \<open>
  \<^verbatim>\<open>getStatusBadge\<close>. A badge is its colour class and its label: blue "Queued",
  purple "Running", orange "Timeout", green (success) with the code, yellow (client
  error) with the code, red (failure) with the code, or with the text "Error" (None)
  when the code is 0.
\<close>

datatype Badge =
    QueuedBadge
  | RunningBadge
  | TimeoutBadge
  | SuccessBadge int
  | ClientErrorBadge int
  | FailureBadge "int option"

definition getStatusBadge :: "string \<Rightarrow> int \<Rightarrow> Badge" where
  "getStatusBadge st code =
     (if st = ''queued'' then QueuedBadge
      else if st = ''running'' then RunningBadge
      else if st = ''timeout'' then TimeoutBadge
      else if code \<ge> 200 \<and> code < 300 then SuccessBadge code
      else if code \<ge> 400 \<and> code < 500 then ClientErrorBadge code
      else FailureBadge (if code \<noteq> 0 then Some code else None))"

text \<open>
  The older page, \<^verbatim>\<open>src/apps/web/src/pages/webhook-details/index.tsx\<close>: its
  \<^verbatim>\<open>getStatusBadge\<close> ignores the status argument and always prints the code; its
  \<^verbatim>\<open>transformExecution\<close> derives the status code by the same expression, maps every
  status other than success, failure and timed_out to "error", and replaces a falsy
  duration by 0. Its \<^verbatim>\<open>response\<close> object (display text only) is left out.
\<close>

definition getStatusBadge_index :: "string \<Rightarrow> int \<Rightarrow> Badge" where
  "getStatusBadge_index st code =
     (if code \<ge> 200 \<and> code < 300 then SuccessBadge code
      else if code \<ge> 400 \<and> code < 500 then ClientErrorBadge code
      else FailureBadge (Some code))"

record DisplayExecution_index =
  i_id :: string
  i_timestamp :: int
  i_status :: string
  i_statusCode :: int
  i_duration :: int

definition transformExecution_index :: "JobExecution \<Rightarrow> DisplayExecution_index" where
  "transformExecution_index execution =
     \<lparr> i_id = exec_id execution,
       i_timestamp = created_at execution,
       i_status =
         (if status execution = ''success'' then ''success''
          else if status execution = ''failure'' then ''error''
          else if status execution = ''timed_out'' then ''timeout''
          else ''error''),
       i_statusCode = statusCodeOf execution,
       i_duration =
         (case duration_ms execution of Some d \<Rightarrow> (if d \<noteq> 0 then d else 0) | None \<Rightarrow> 0) \<rparr>"

text \<open>The badge shown for a wire record, in either page.\<close>

definition renderedBadge :: "(string \<Rightarrow> string option) \<Rightarrow> JobExecution \<Rightarrow> Badge" where
  "renderedBadge reformatJson execution =
     (let e = transformExecution reformatJson execution
      in getStatusBadge (d_status e) (statusCode e))"

definition renderedBadge_index :: "JobExecution \<Rightarrow> Badge" where
  "renderedBadge_index execution =
     (let e = transformExecution_index execution
      in getStatusBadge_index (i_status e) (i_statusCode e))"

text \<open>
  The icon of the status card in the detail panel (\<^verbatim>\<open>src/unnamed/part_003\<close>, the
  conditional on \<^verbatim>\<open>execution.status\<close> above the badge): a green check, a red cross, an
  orange alert, or a muted alert. It is chosen from the display status that
  \<^verbatim>\<open>transformExecution\<close> has produced.
\<close>

datatype StatusIcon = GreenCheckIcon | RedCrossIcon | OrangeAlertIcon | MutedAlertIcon

definition statusIcon :: "string \<Rightarrow> StatusIcon" where
  "statusIcon st =
     (if st = ''success'' then GreenCheckIcon
      else if st = ''failure'' then RedCrossIcon
      else if st = ''timeout'' then OrangeAlertIcon
      else MutedAlertIcon)"

definition renderedIcon :: "(string \<Rightarrow> string option) \<Rightarrow> JobExecution \<Rightarrow> StatusIcon" where
  "renderedIcon reformatJson execution =
     statusIcon (d_status (transformExecution reformatJson execution))"

text \<open>The three code classes the display rule speaks of.\<close>

datatype CodeClass = SuccessStyled | ClientErrorStyled | FailureStyled

definition codeClass :: "int \<Rightarrow> CodeClass" where
  "codeClass code =
     (if 200 \<le> code \<and> code < 300 then SuccessStyled
      else if 400 \<le> code \<and> code < 500 then ClientErrorStyled
      else FailureStyled)"

fun badgeClass :: "Badge \<Rightarrow> CodeClass option" where
  "badgeClass (SuccessBadge c) = Some SuccessStyled"
| "badgeClass (ClientErrorBadge c) = Some ClientErrorStyled"
| "badgeClass (FailureBadge l) = Some FailureStyled"
| "badgeClass _ = None"


section \<open>Cron utilities (cron-utils.ts)\<close>

subsection \<open>JavaScript string operations\<close>

text \<open>
  A JavaScript string is a sequence of UTF-16 code units. Here a code unit is a 16-bit
  word and a string is a list of code units; \<open>js\<close> turns a literal of ASCII text into
  such a string.

  \<open>isSpace\<close> is the set of code units that \<^verbatim>\<open>trim()\<close> removes and \<^verbatim>\<open>\s\<close> matches, which
  are the same: the white space of ECMAScript (tab U+0009, vertical tab U+000B, form
  feed U+000C, the byte order mark U+FEFF and the space separators U+0020, U+00A0,
  U+1680, U+2000 to U+200A, U+202F, U+205F, U+3000) and its line terminators (line feed
  U+000A, carriage return U+000D, U+2028, U+2029). \<^verbatim>\<open>toLowerCase\<close> is written for the
  letters A to Z, the capital letters of the texts it is applied to.
\<close>

type_synonym jsString = "16 word list"

definition js :: "string \<Rightarrow> jsString" where
  "js s = map (\<lambda>c. word_of_nat (of_char c)) s"

definition isSpace :: "16 word \<Rightarrow> bool" where
  "isSpace c =
     (c \<in> set [0x0009, 0x000A, 0x000B, 0x000C, 0x000D, 0x0020, 0x00A0, 0x1680,
                0x2028, 0x2029, 0x202F, 0x205F, 0x3000, 0xFEFF]
      \<or> (0x2000 \<le> c \<and> c \<le> 0x200A))"

definition trim :: "jsString \<Rightarrow> jsString" where
  "trim s = rev (dropWhile isSpace (rev (dropWhile isSpace s)))"

text \<open>
  \<^verbatim>\<open>s.split(/\s+/)\<close>: the pieces between maximal runs of white space, an empty piece
  at an end where the string starts or ends with white space, and the single piece
  \<^verbatim>\<open>""\<close> for the empty string. \<open>splitFrom inSep cur\<close> scans with the current piece
  \<open>cur\<close> (reversed), \<open>inSep\<close> telling that the scan is inside a run of white space.
\<close>

fun splitFrom :: "bool \<Rightarrow> jsString \<Rightarrow> jsString \<Rightarrow> jsString list" where
  "splitFrom inSep cur [] = [rev cur]"
| "splitFrom inSep cur (c # cs) =
     (if isSpace c then
        (if inSep then splitFrom True cur cs else rev cur # splitFrom True [] cs)
      else splitFrom False (c # cur) cs)"

definition splitWs :: "jsString \<Rightarrow> jsString list" where
  "splitWs s = splitFrom False [] s"

text \<open>\<^verbatim>\<open>parts.join(' ')\<close>.\<close>

fun joinSpace :: "jsString list \<Rightarrow> jsString" where
  "joinSpace [] = []"
| "joinSpace [p] = p"
| "joinSpace (p # ps) = p @ js '' '' @ joinSpace ps"

fun startsWith :: "jsString \<Rightarrow> jsString \<Rightarrow> bool" where
  "startsWith s [] = True"
| "startsWith [] (p # ps) = False"
| "startsWith (c # cs) (p # ps) = (c = p \<and> startsWith cs ps)"

fun includesStr :: "jsString \<Rightarrow> jsString \<Rightarrow> bool" where
  "includesStr [] p = (p = [])"
| "includesStr (c # cs) p = (startsWith (c # cs) p \<or> includesStr cs p)"

definition lowerChar :: "16 word \<Rightarrow> 16 word" where
  "lowerChar c = (if 65 \<le> c \<and> c \<le> 90 then c + 32 else c)"

definition toLowerCase :: "jsString \<Rightarrow> jsString" where
  "toLowerCase s = map lowerChar s"

subsection \<open>parseCronExpression\<close>

text \<open>
  The result objects of the three exported functions each have a field \<^verbatim>\<open>error\<close>, and
  two have \<^verbatim>\<open>isValid\<close>; the records name them apart: \<open>parsedFields\<close> and \<open>parseError\<close>
  for \<^verbatim>\<open>fields\<close> and \<^verbatim>\<open>error\<close> of \<^verbatim>\<open>parseCronExpression\<close>, \<open>v_isValid\<close> and \<open>v_error\<close>
  for \<^verbatim>\<open>validateCronExpression\<close>, \<open>descError\<close> for \<^verbatim>\<open>error\<close> of \<^verbatim>\<open>CronDescription\<close>.
\<close>

record CronField =
  second :: "jsString option"
  minute :: jsString
  hour :: jsString
  dayOfMonth :: jsString
  month :: jsString
  dayOfWeek :: jsString

record ParseResult =
  parsedFields :: "CronField option"
  parseError :: "jsString option"

definition fieldCountMessage :: jsString where
  "fieldCountMessage =
     js ''Cron expression must have exactly 5 fields (minute hour day month weekday) or 6 fields (second minute hour day month weekday)''"

definition parseCronExpression :: "jsString \<Rightarrow> ParseResult" where
  "parseCronExpression cron =
     (let trimmed = trim cron;
          parts = splitWs trimmed
      in if length parts = 5 then
           \<lparr> parsedFields = Some \<lparr> second = None, minute = parts ! 0, hour = parts ! 1,
                             dayOfMonth = parts ! 2, month = parts ! 3, dayOfWeek = parts ! 4 \<rparr>,
             parseError = None \<rparr>
         else if length parts = 6 then
           \<lparr> parsedFields = Some \<lparr> second = Some (parts ! 0), minute = parts ! 1, hour = parts ! 2,
                             dayOfMonth = parts ! 3, month = parts ! 4, dayOfWeek = parts ! 5 \<rparr>,
             parseError = None \<rparr>
         else \<lparr> parsedFields = None, parseError = Some fieldCountMessage \<rparr>)"

subsection \<open>validateCronExpression\<close>

text \<open>
  The occurrence calculator (the cron-parser library) is a parameter.
  \<open>parse cron currentDate seconds\<close> stands for
  \<^verbatim>\<open>CronExpressionParser.parse(cron, {currentDate, seconds})\<close>: \<open>Inr\<close> the iterator, or
  \<open>Inl\<close> the \<^verbatim>\<open>message\<close> of the error thrown (None when the thrown value has none).
  \<open>next it\<close> stands for \<^verbatim>\<open>it.next().toDate()\<close>: the next occurrence and the advanced
  iterator, or None when the call throws.
\<close>

type_synonym ('t, 'it) cronParser = "jsString \<Rightarrow> 't option \<Rightarrow> bool \<Rightarrow> jsString option + 'it"

record ValidationResult =
  v_isValid :: bool
  v_error :: "jsString option"

definition validateCronExpression :: "('t, 'it) cronParser \<Rightarrow> jsString \<Rightarrow> ValidationResult" where
  "validateCronExpression parse cron =
     (let hasSeconds = (length (splitWs (trim cron)) = 6)
      in case parse cron None hasSeconds of
           Inr it \<Rightarrow> \<lparr> v_isValid = True, v_error = None \<rparr>
         | Inl message \<Rightarrow>
             \<lparr> v_isValid = False,
               v_error = Some (case message of
                                 Some m \<Rightarrow> if m \<noteq> [] then m else js ''Invalid cron expression''
                               | None \<Rightarrow> js ''Invalid cron expression'') \<rparr>)"

subsection \<open>generateNextRuns\<close>

text \<open>
  The loop \<^verbatim>\<open>for (let i = 0; i < 5; i++)\<close> with its \<^verbatim>\<open>break\<close> on the first failing
  \<^verbatim>\<open>next()\<close>; \<open>formatRun now nextDate\<close> stands for the \<^verbatim>\<open>toLocaleString\<close> call, which
  prints the year when it differs from the year of \<open>now\<close>. \<open>nextRunDates\<close> is the same
  loop collecting the dates before they are formatted.
\<close>

fun collectRuns ::
    "('it \<Rightarrow> ('t \<times> 'it) option) \<Rightarrow> ('t \<Rightarrow> jsString) \<Rightarrow> nat \<Rightarrow> 'it \<Rightarrow> jsString list" where
  "collectRuns next fmt 0 it = []"
| "collectRuns next fmt (Suc n) it =
     (case next it of
        None \<Rightarrow> []
      | Some (nextDate, it') \<Rightarrow> fmt nextDate # collectRuns next fmt n it')"

fun nextRunDates :: "('it \<Rightarrow> ('t \<times> 'it) option) \<Rightarrow> nat \<Rightarrow> 'it \<Rightarrow> 't list" where
  "nextRunDates next 0 it = []"
| "nextRunDates next (Suc n) it =
     (case next it of
        None \<Rightarrow> []
      | Some (nextDate, it') \<Rightarrow> nextDate # nextRunDates next n it')"

definition generateNextRuns ::
    "('t, 'it) cronParser \<Rightarrow> ('it \<Rightarrow> ('t \<times> 'it) option) \<Rightarrow> ('t \<Rightarrow> 't \<Rightarrow> jsString) \<Rightarrow>
     't \<Rightarrow> jsString \<Rightarrow> bool \<Rightarrow> jsString list" where
  "generateNextRuns parse next formatRun now cron hasSeconds =
     (case parse cron (Some now) hasSeconds of
        Inl message \<Rightarrow> []
      | Inr interval \<Rightarrow> collectRuns next (formatRun now) 5 interval)"

definition projectedDates ::
    "('t, 'it) cronParser \<Rightarrow> ('it \<Rightarrow> ('t \<times> 'it) option) \<Rightarrow> 't \<Rightarrow> jsString \<Rightarrow> bool \<Rightarrow> 't list" where
  "projectedDates parse next now cron hasSeconds =
     (case parse cron (Some now) hasSeconds of
        Inl message \<Rightarrow> []
      | Inr interval \<Rightarrow> nextRunDates next 5 interval)"

text \<open>
  What the calculator promises: every \<^verbatim>\<open>next()\<close> returns an instant strictly later than
  the iterator's current date and makes it the current date, and an iterator parsed
  with \<^verbatim>\<open>currentDate: now\<close> starts at \<open>now\<close>. \<open>cur\<close> reads an iterator's current date.
\<close>

definition calculatorAdvances ::
    "('it \<Rightarrow> (('t::linorder) \<times> 'it) option) \<Rightarrow> ('it \<Rightarrow> 't) \<Rightarrow> bool" where
  "calculatorAdvances next cur =
     (\<forall>it d it'. next it = Some (d, it') \<longrightarrow> cur it < d \<and> cur it' = d)"

definition parserStartsAt :: "('t, 'it) cronParser \<Rightarrow> ('it \<Rightarrow> 't) \<Rightarrow> bool" where
  "parserStartsAt parse cur =
     (\<forall>cron now seconds it. parse cron (Some now) seconds = Inr it \<longrightarrow> cur it = now)"

text \<open>
  What the calculator does, told apart from what the loop makes of it:
  \<open>occurrences next it ds it'\<close> says that successive \<^verbatim>\<open>next()\<close> calls on the iterator \<open>it\<close>
  succeed \<open>length ds\<close> times, return the dates \<open>ds\<close> in this order, and leave the
  iterator \<open>it'\<close>.
\<close>

fun occurrences :: "('it \<Rightarrow> ('t \<times> 'it) option) \<Rightarrow> 'it \<Rightarrow> 't list \<Rightarrow> 'it \<Rightarrow> bool" where
  "occurrences next it [] it' = (it' = it)"
| "occurrences next it (d # ds) it' =
     (case next it of
        None \<Rightarrow> False
      | Some (d0, it0) \<Rightarrow> d0 = d \<and> occurrences next it0 ds it')"

subsection \<open>describeCronExpression\<close>

text \<open>
  \<open>toStr\<close> stands for \<^verbatim>\<open>cronstrue.toString\<close>, None where it throws. \<open>describeText\<close> is
  the inner \<^verbatim>\<open>try\<close> block, None where an exception leaves it; the \<^verbatim>\<open>catch\<close> then
  substitutes the fallback text. Nothing after that block can throw, so the outer
  \<^verbatim>\<open>catch\<close> has no branch here.
\<close>

record CronDescription =
  description :: jsString
  nextRuns :: "jsString list"
  isValid :: bool
  descError :: "jsString option"

definition describeText ::
    "(jsString \<Rightarrow> jsString option) \<Rightarrow> jsString \<Rightarrow> jsString list \<Rightarrow> bool \<Rightarrow> jsString option" where
  "describeText toStr cron parts hasSeconds =
     (if hasSeconds then
        (let secondField = parts ! 0;
             fiveFieldCron = joinSpace (drop 1 parts)
         in if secondField = js ''*'' then Some (js ''Every second'')
            else if startsWith secondField (js ''*/'') then
              (let interval = drop 2 secondField
               in case toStr fiveFieldCron of
                    None \<Rightarrow> None
                  | Some fiveFieldDesc \<Rightarrow>
                      if includesStr (toLowerCase fiveFieldDesc) (js ''every minute'') then
                        Some (js ''Every '' @ interval @ js '' second''
                              @ (if interval \<noteq> js ''1'' then js ''s'' else []))
                      else
                        Some (js ''Every '' @ interval @ js '' second''
                              @ (if interval \<noteq> js ''1'' then js ''s'' else [])
                              @ js '', '' @ toLowerCase fiveFieldDesc))
            else if secondField = js ''0'' then toStr fiveFieldCron
            else
              (case toStr fiveFieldCron of
                 None \<Rightarrow> None
               | Some fiveFieldDesc \<Rightarrow>
                   Some (fiveFieldDesc @ js '' at second '' @ secondField)))
      else toStr cron)"

definition describeCronExpression ::
    "('t, 'it) cronParser \<Rightarrow> ('it \<Rightarrow> ('t \<times> 'it) option) \<Rightarrow> ('t \<Rightarrow> 't \<Rightarrow> jsString) \<Rightarrow>
     (jsString \<Rightarrow> jsString option) \<Rightarrow> 't \<Rightarrow> jsString \<Rightarrow> CronDescription" where
  "describeCronExpression parse next formatRun toStr now cron =
     (let validation = validateCronExpression parse cron
      in if \<not> v_isValid validation then
           \<lparr> description = [], nextRuns = [], isValid = False,
             descError = v_error validation \<rparr>
         else
           (let parts = splitWs (trim cron);
                hasSeconds = (length parts = 6);
                description =
                  (case describeText toStr cron parts hasSeconds of
                     Some d \<Rightarrow> d
                   | None \<Rightarrow> js ''Valid cron expression'');
                nextRuns = generateNextRuns parse next formatRun now cron hasSeconds
            in \<lparr> description = description, nextRuns = nextRuns, isValid = True,
                 descError = None \<rparr>))"

section \<open>Sample inputs\<close>

text \<open>
  Concrete records, pages and histories at which the theorems below are instantiated.
  In \<open>loadMoreInFlight\<close> the first page has arrived, \<^verbatim>\<open>loadMore\<close> has been accepted and
  the ref-sync effects have run; in \<open>loadMoreJustCalled\<close> they have not run yet.
  \<open>fullPage k\<close> is a page of 20 records whose ids are the letter a repeated k+1 to
  k+20 times, so \<open>fullPage 15\<close> repeats five ids of \<open>fullPage 0\<close>.
\<close>

definition sampleExecution :: "string \<Rightarrow> JobExecution" where
  "sampleExecution i =
     \<lparr> exec_id = i, status = ''success'', response_code = Some 200, response_body = None,
       duration_ms = Some 12, attempt = None, error = None, created_at = 0,
       started_at = None, finished_at = None \<rparr>"

definition fullPage :: "nat \<Rightarrow> PaginatedJobExecutionsResponse" where
  "fullPage k =
     \<lparr> data = map (\<lambda>n. sampleExecution (replicate (Suc n) (CHR ''a''))) [k ..< k + 20],
       meta_total = 45 \<rparr>"

definition emptyPage :: PaginatedJobExecutionsResponse where
  "emptyPage = \<lparr> data = [], meta_total = 45 \<rparr>"

definition loadMoreInFlight :: "event list" where
  "loadMoreInFlight = [InitialData (fullPage 0), SyncRefs False, LoadMore, SyncRefs True]"

definition loadMoreJustCalled :: "event list" where
  "loadMoreJustCalled = [InitialData (fullPage 0), SyncRefs False, LoadMore]"




definition timedOutExecution :: JobExecution where
  "timedOutExecution =
     \<lparr> exec_id = ''t1'', status = ''timed_out'', response_code = None, response_body = None,
       duration_ms = None, attempt = Some 1, error = Some ''timeout'', created_at = 9,
       started_at = Some 8, finished_at = None \<rparr>"

definition runningExecution :: JobExecution where
  "runningExecution =
     \<lparr> exec_id = ''r1'', status = ''running'', response_code = None, response_body = None,
       duration_ms = None, attempt = Some 1, error = None, created_at = 10,
       started_at = Some 10, finished_at = None \<rparr>"

definition queuedExecution :: JobExecution where
  "queuedExecution =
     \<lparr> exec_id = ''q1'', status = ''queued'', response_code = None, response_body = None,
       duration_ms = None, attempt = None, error = None, created_at = 5,
       started_at = None, finished_at = None \<rparr>"

definition failedExecution :: JobExecution where
  "failedExecution =
     \<lparr> exec_id = ''f1'', status = ''failure'', response_code = None, response_body = None,
       duration_ms = Some 30, attempt = Some 2, error = Some ''connection refused'',
       created_at = 7, started_at = Some 6, finished_at = Some 7 \<rparr>"

definition noJson :: "string \<Rightarrow> string option" where
  "noJson body = None"

text \<open>
  Stand-ins for the two libraries. \<open>sampleParse\<close> accepts every expression of at most
  six fields, as cron-parser does outside strict mode (it fills in the fields that are
  missing), and \<open>sampleNext\<close> counts upward from the current date until 103.
  \<open>sampleToStr\<close> holds the texts cronstrue prints for two five-field expressions.
\<close>

definition sampleParse :: "(nat, nat) cronParser" where
  "sampleParse cron currentDate seconds =
     (if length (splitWs (trim cron)) > 6
      then Inl (Some (js ''Invalid cron expression, too many fields''))
      else Inr (case currentDate of Some t \<Rightarrow> t | None \<Rightarrow> 0))"

definition sampleNext :: "nat \<Rightarrow> (nat \<times> nat) option" where
  "sampleNext it = (if it < 103 then Some (Suc it, Suc it) else None)"

definition sampleFormat :: "nat \<Rightarrow> nat \<Rightarrow> jsString" where
  "sampleFormat now nextDate = js (''now+'' @ replicate (nextDate - now) (CHR ''s''))"

definition sampleToStr :: "jsString \<Rightarrow> jsString option" where
  "sampleToStr cron =
     (if cron = js ''* * * * *'' then Some (js ''Every minute'')
      else if cron = js ''* * * 6-8 *'' then Some (js ''Every minute, June through August'')
      else if cron = js ''0 9 * * 1'' then Some (js ''At 09:00 AM, only on Monday'')
      else None)"


section \<open>Properties of the execution history loader\<close>

subsection \<open>Deduplication\<close>

lemma appendNew_unique:
  "uniqueIds prev \<Longrightarrow> uniqueIds page \<Longrightarrow> uniqueIds (appendNew prev page)"
  unfolding uniqueIds_def appendNew_def Let_def
  by (auto simp: distinct_map_filter image_iff)

lemma appendNew_repeat:
  assumes "e \<in> set page" "exec_id e \<in> exec_id ` set prev"
  shows "length (appendNew prev page) < length prev + length page"
proof -
  have "length (filter (\<lambda>x. exec_id x \<notin> set (map exec_id prev)) page) < length page"
    using assms by (intro length_filter_less[of e]) auto
  then show ?thesis unfolding appendNew_def Let_def by simp
qed


lemma step_unique:
  "uniqueIds (loadedExecutions s) \<Longrightarrow> uniqueIds (eventPage e) \<Longrightarrow>
   uniqueIds (loadedExecutions (step e s))"
proof (cases e)
  case (MoreData d)
  then show "uniqueIds (loadedExecutions s) \<Longrightarrow> uniqueIds (eventPage e) \<Longrightarrow> ?thesis"
    by (simp add: appendEffect_def appendNew_unique)
next
  case (RefreshFinish r)
  then show "uniqueIds (loadedExecutions s) \<Longrightarrow> uniqueIds (eventPage e) \<Longrightarrow> ?thesis"
    by (cases r) (simp_all add: refreshFinish_def)
qed (simp_all add: initializeEffect_def syncRefs_def loadMore_def resetOnIdChange_def
       refreshStart_def uniqueIds_def)

lemma run_unique:
  "uniqueIds (loadedExecutions s) \<Longrightarrow> pagesUnique evs \<Longrightarrow>
   uniqueIds (loadedExecutions (run evs s))"
  by (induction evs arbitrary: s) (simp_all add: step_unique)

text \<open>
  Claim C1. After every history of loader operations (initial load, load-more
  completions, refresh, id change, in any order and number) whose pages each come from
  the execution store, hence repeat no id within one page, the loaded list holds no two
  records with the same id. In particular, appending a load-more page that repeats an id
  already loaded gives a list without duplicate ids, and the list grows by less than the
  size of the page.
\<close>

theorem loaded_ids_unique:
  assumes "pagesUnique evs"
  shows "uniqueIds (loadedExecutions (run evs initialState)) \<and>
         (\<forall>d. uniqueIds (data d) \<and>
              (\<exists>e \<in> set (data d).
                 exec_id e \<in> exec_id ` set (loadedExecutions (run evs initialState)))
              \<longrightarrow> uniqueIds (loadedExecutions (appendEffect (Some d) (run evs initialState))) \<and>
                  length (loadedExecutions (appendEffect (Some d) (run evs initialState)))
                    < length (loadedExecutions (run evs initialState)) + length (data d))"
proof -
  let ?s = "run evs initialState"
  have u: "uniqueIds (loadedExecutions ?s)"
    using assms by (intro run_unique) (simp_all add: initialState_def uniqueIds_def)
  have "uniqueIds (loadedExecutions (appendEffect (Some d) ?s)) \<and>
        length (loadedExecutions (appendEffect (Some d) ?s))
          < length (loadedExecutions ?s) + length (data d)"
    if d: "uniqueIds (data d)"
      and ex: "\<exists>e \<in> set (data d). exec_id e \<in> exec_id ` set (loadedExecutions ?s)" for d
  proof -
    from ex obtain e where e: "e \<in> set (data d)" "exec_id e \<in> exec_id ` set (loadedExecutions ?s)"
      by blast
    then have ne: "length (data d) > 0" by (cases "data d") auto
    show ?thesis
      using u d ne appendNew_unique[OF u d] appendNew_repeat[OF e]
      by (simp add: appendEffect_def)
  qed
  with u show ?thesis by blast
qed

text \<open>
  The first page is loaded, a load-more request for offset 20 is in flight, and the page
  that arrives repeats five of the ids already loaded: the result has 35 records.
\<close>

theorem loaded_ids_unique_witness:
  "pagesUnique loadMoreInFlight \<and>
   uniqueIds (data (fullPage 15)) \<and>
   (\<exists>e \<in> set (data (fullPage 15)).
      exec_id e \<in> exec_id ` set (loadedExecutions (run loadMoreInFlight initialState))) \<and>
   uniqueIds (loadedExecutions (run loadMoreInFlight initialState)) \<and>
   uniqueIds (loadedExecutions
     (appendEffect (Some (fullPage 15)) (run loadMoreInFlight initialState))) \<and>
   length (loadedExecutions
     (appendEffect (Some (fullPage 15)) (run loadMoreInFlight initialState)))
     < length (loadedExecutions (run loadMoreInFlight initialState)) + length (data (fullPage 15))"
proof -
  have p: "pagesUnique loadMoreInFlight"
    by code_simp
  have d: "uniqueIds (data (fullPage 15))"
    by code_simp
  have ex: "\<exists>e \<in> set (data (fullPage 15)).
      exec_id e \<in> exec_id ` set (loadedExecutions (run loadMoreInFlight initialState))"
    by code_simp
  note main = loaded_ids_unique[OF p]
  from main have u: "uniqueIds (loadedExecutions (run loadMoreInFlight initialState))"
    by (rule conjunct1)
  from main[THEN conjunct2, THEN spec, of "fullPage 15"] d ex
  have a: "uniqueIds (loadedExecutions
             (appendEffect (Some (fullPage 15)) (run loadMoreInFlight initialState))) \<and>
           length (loadedExecutions
             (appendEffect (Some (fullPage 15)) (run loadMoreInFlight initialState)))
           < length (loadedExecutions (run loadMoreInFlight initialState))
             + length (data (fullPage 15))"
    by (elim impE) (intro conjI)
  from p d ex u a show ?thesis
    by (intro conjI) (elim conjE, assumption)+
qed

subsection \<open>The loadMore guard\<close>

text \<open>
  \<^verbatim>\<open>loadMore\<close> changes nothing whenever one of the guard refs blocks. The refs are the
  copies of \<open>isLoadingMore\<close>, of the load-more query's loading flag and of \<open>hasMore\<close>
  that the ref-sync effects make, so the same holds of the state cells once those effects
  have run.
\<close>

lemma loadMore_guarded_noop:
  "(isLoadingMoreRef s \<or> isLoadingMoreExecutionsRef s \<or> \<not> hasMoreRef s
      \<longrightarrow> loadMore s = s \<and> loadMoreOffset (loadMore s) = loadMoreOffset s) \<and>
   (isLoadingMore s \<or> isLoadingMoreExecutions \<or> \<not> hasMore s
      \<longrightarrow> loadMore (syncRefs isLoadingMoreExecutions s) = syncRefs isLoadingMoreExecutions s)"
  by (auto simp: loadMore_def syncRefs_def)

text \<open>
  Claim C2, at a concrete history. The first page of 20 rows is loaded, the refs are in
  sync, and \<^verbatim>\<open>loadMore\<close> has been called once: \<open>isLoadingMore\<close> is true and the load-more
  query is at offset 20, while \<open>isLoadingMoreRef\<close> still holds False, the value the last
  ref-sync effect wrote. A second call before the next ref-sync effect is not a no-op:
  it passes the guard and moves the offset of the load-more query from 20 to 40, so
  that a second page request replaces the first and the page at offset 20 is never
  appended.
\<close>

theorem loadMore_second_call_passes_guard:
  "isLoadingMore (run loadMoreJustCalled initialState) \<and>
   hasMore (run loadMoreJustCalled initialState) \<and>
   \<not> isLoadingMoreRef (run loadMoreJustCalled initialState) \<and>
   loadMoreOffset (run loadMoreJustCalled initialState) = Some 20 \<and>
   loadMore (run loadMoreJustCalled initialState) \<noteq> run loadMoreJustCalled initialState \<and>
   currentOffset (loadMore (run loadMoreJustCalled initialState)) = 40 \<and>
   loadMoreOffset (run (loadMoreJustCalled @ [LoadMore]) initialState) = Some 40 \<and>
   loadedExecutions (run (loadMoreJustCalled @ [LoadMore, SyncRefs True, MoreData (fullPage 40)])
                       initialState)
     = data (fullPage 0) @ data (fullPage 40)"
  by code_simp

subsection \<open>The cursor\<close>

lemma step_offset:
  "currentOffset (step e s) =
     (case e of
        LoadMore \<Rightarrow> if guardOpen s then currentOffset s + 20 else currentOffset s
      | IdChange \<Rightarrow> 0
      | RefreshStart \<Rightarrow> 0
      | _ \<Rightarrow> currentOffset s)"
proof (cases e)
  case (InitialData d)
  then show ?thesis by (simp add: initializeEffect_def)
next
  case (MoreData d)
  then show ?thesis by (simp add: appendEffect_def)
next
  case (RefreshFinish r)
  then show ?thesis by (cases r) (simp_all add: refreshFinish_def)
qed (simp_all add: syncRefs_def loadMore_def guardOpen_def resetOnIdChange_def refreshStart_def)

lemma run_offset:
  "currentOffset s = 20 * n \<Longrightarrow> currentOffset (run evs s) = 20 * loadMoresSinceReset evs s n"
proof (induction evs arbitrary: s n)
  case Nil
  then show ?case by simp
next
  case (Cons e evs)
  have "currentOffset (step e s) =
        20 * (case e of LoadMore \<Rightarrow> if guardOpen s then n + 1 else n
                | IdChange \<Rightarrow> 0 | RefreshStart \<Rightarrow> 0 | _ \<Rightarrow> n)"
    using Cons.prems by (simp add: step_offset split: event.split)
  from Cons.IH[OF this] show ?case by simp
qed



subsection \<open>Refresh and late responses\<close>




subsection \<open>Completion of a load-more fetch\<close>

text \<open>
  Claim C4. When the page of a load-more fetch arrives (\<open>currentOffset\<close> is then positive),
  \<open>totalExecutions\<close> keeps its value, \<open>hasMore\<close> becomes (page length = 20), and the
  loading flag is cleared; an empty page therefore makes \<open>hasMore\<close> false.
\<close>

theorem loadMore_completion_frame:
  assumes "currentOffset s > 0"
  shows "totalExecutions (appendEffect (Some d) s) = totalExecutions s \<and>
         hasMore (appendEffect (Some d) s) = (length (data d) = 20) \<and>
         isLoadingMore (appendEffect (Some d) s) = False \<and>
         (data d = [] \<longrightarrow> \<not> hasMore (appendEffect (Some d) s))"
  using assms by (auto simp: appendEffect_def)

text \<open>
  The first page had 20 rows, so \<open>hasMore\<close> is true; the fetch at offset 20 returns no
  rows and \<open>hasMore\<close> becomes false, the total staying 45.
\<close>

theorem loadMore_completion_frame_witness:
  "currentOffset (run loadMoreInFlight initialState) > 0 \<and>
   hasMore (run loadMoreInFlight initialState) \<and>
   totalExecutions (run loadMoreInFlight initialState) = 45 \<and>
   data emptyPage = [] \<and>
   totalExecutions (appendEffect (Some emptyPage) (run loadMoreInFlight initialState)) = 45 \<and>
   \<not> hasMore (appendEffect (Some emptyPage) (run loadMoreInFlight initialState)) \<and>
   hasMore (appendEffect (Some (fullPage 20)) (run loadMoreInFlight initialState))"
proof -
  have c: "currentOffset (run loadMoreInFlight initialState) > 0" by code_simp
  have h: "hasMore (run loadMoreInFlight initialState)" by code_simp
  have t: "totalExecutions (run loadMoreInFlight initialState) = 45" by code_simp
  have e: "data emptyPage = []" by (simp add: emptyPage_def)
  have f: "length (data (fullPage 20)) = 20" by (simp add: fullPage_def)
  from loadMore_completion_frame[OF c, of emptyPage]
       loadMore_completion_frame[OF c, of "fullPage 20"] c h t e f
  show ?thesis by simp
qed

subsection \<open>What the cursor counts\<close>

text \<open>
  Claim C5, as stated, at concrete histories. After the initial page has arrived, one
  fetch of 20 records has completed and \<open>currentOffset\<close> is 0; after the first load-more
  page has arrived as well, two fetches have completed and \<open>currentOffset\<close> is 20.
\<close>

theorem currentOffset_completed_fetches_counterexample:
  "currentOffset (run [InitialData (fullPage 0)] initialState) = 0 \<and>
   20 * completedFetches [InitialData (fullPage 0)] = 20 \<and>
   currentOffset (run (loadMoreInFlight @ [MoreData (fullPage 20)]) initialState) = 20 \<and>
   20 * completedFetches (loadMoreInFlight @ [MoreData (fullPage 20)]) = 40"
  by code_simp

text \<open>
  Claim C5, amended. After every history of loader operations, \<open>currentOffset\<close> is 20
  times the number of \<^verbatim>\<open>loadMore\<close> calls that passed the guard since the last reset
  (mount, id change or refresh): it is the offset of the page requested last, 0 after
  the initial load, and each accepted \<^verbatim>\<open>loadMore\<close> adds 20 to it. The arrival of a page
  (initial, load-more or refresh) does not change it, however many records of the page
  the deduplication keeps.
\<close>

theorem currentOffset_counts_requests:
  "currentOffset (run evs initialState) = 20 * loadMoresSinceReset evs initialState 0 \<and>
   currentOffset (appendEffect md s) = currentOffset s \<and>
   currentOffset (initializeEffect ed s) = currentOffset s \<and>
   currentOffset (refreshFinish r s) = currentOffset s \<and>
   currentOffset (loadMore s) = (if guardOpen s then currentOffset s + 20 else currentOffset s)"
proof -
  have a: "currentOffset (run evs initialState) = 20 * loadMoresSinceReset evs initialState 0"
    by (rule run_offset) (simp add: initialState_def)
  have b: "currentOffset (appendEffect md s) = currentOffset s"
    by (cases md) (simp_all add: appendEffect_def)
  have c: "currentOffset (initializeEffect ed s) = currentOffset s"
    by (cases ed) (simp_all add: initializeEffect_def)
  have d: "currentOffset (refreshFinish r s) = currentOffset s"
    using step_offset[of "RefreshFinish r" s] by simp
  have e: "currentOffset (loadMore s)
           = (if guardOpen s then currentOffset s + 20 else currentOffset s)"
    using step_offset[of LoadMore s] by simp
  from a b c d e show ?thesis by simp
qed

section \<open>Properties of the display transformation\<close>

subsection \<open>Badges\<close>




subsection \<open>The derived status code\<close>

lemma summaryStats_status_irrelevant:
  "summaryStats rq rp (map (d_status_update f) xs) = summaryStats rq rp xs"
proof -
  have 1: "filter (\<lambda>e. statusCode e \<ge> 200 \<and> statusCode e < 300) (map (d_status_update f) xs)
        = map (d_status_update f) (filter (\<lambda>e. statusCode e \<ge> 200 \<and> statusCode e < 300) xs)"
    by (simp add: filter_map comp_def)
  have 2: "filter (\<lambda>e. duration e \<noteq> None) (map (d_status_update f) xs)
        = map (d_status_update f) (filter (\<lambda>e. duration e \<noteq> None) xs)"
    by (simp add: filter_map comp_def)
  have 3: "foldl (\<lambda>sum e. sum + (case duration e of Some d \<Rightarrow> d | None \<Rightarrow> 0)) a
             (map (d_status_update f) ys)
         = foldl (\<lambda>sum e. sum + (case duration e of Some d \<Rightarrow> d | None \<Rightarrow> 0)) a ys" for a ys
    by (induction ys arbitrary: a) simp_all
  show ?thesis
    unfolding summaryStats_def Let_def 1 2 3 by simp
qed

lemma executions_success_count:
  "length (filter (\<lambda>x. statusCode x \<ge> 200 \<and> statusCode x < 300) (executions rj ws))
     = length (filter (\<lambda>e. 200 \<le> statusCodeOf e \<and> statusCodeOf e < 300) ws)"
proof -
  have "length (filter (\<lambda>x. statusCode x \<ge> 200 \<and> statusCode x < 300)
                  (map (transformExecution rj) ws))
        = length (filter (\<lambda>e. 200 \<le> statusCodeOf e \<and> statusCodeOf e < 300) ws)"
    by (induction ws) (simp_all add: transformExecution_def Let_def)
  then show ?thesis
    by (simp add: executions_def filter_sort)
qed

text \<open>
  Claim C10, as stated, at concrete records. A timed-out execution without a response
  code gets the derived code 0, which is in the failure class; its badge is the Timeout
  badge and its detail icon the orange alert, both chosen from the status. A running
  execution without a response code gets the code 0 as well and is shown with the
  Running badge.
\<close>

theorem fabricated_code_styling_counterexample:
  "response_code timedOutExecution = None \<and>
   statusCode (transformExecution noJson timedOutExecution) = 0 \<and>
   codeClass (statusCode (transformExecution noJson timedOutExecution)) = FailureStyled \<and>
   renderedBadge noJson timedOutExecution = TimeoutBadge \<and>
   badgeClass (renderedBadge noJson timedOutExecution) \<noteq> Some FailureStyled \<and>
   renderedIcon noJson timedOutExecution = OrangeAlertIcon \<and>
   response_code runningExecution = None \<and>
   statusCode (transformExecution noJson runningExecution) = 0 \<and>
   renderedBadge noJson runningExecution = RunningBadge \<and>
   badgeClass (renderedBadge noJson runningExecution) \<noteq> Some FailureStyled"
  by (simp add: timedOutExecution_def runningExecution_def statusCodeOf_def codeClass_def
        renderedBadge_def renderedIcon_def statusIcon_def transformExecution_def
        getStatusBadge_def Let_def)

text \<open>
  Claim C10, amended. For a wire record whose response code is absent or 0, both pages
  derive the status code 200 from the status success, 500 from the status failure and
  0 from any other status. The summary statistics are computed from the derived codes
  and not from the stored statuses: the success count is the number of records whose
  code is in the success class, the error count is the rest, the success rate is the
  rounded share of the success count, and overwriting the stored statuses changes none
  of them; the success/error status of a chart bar is computed from the code in the
  same way. The badge of such a record is the Queued, Running or Timeout badge when its
  status is queued, running or timed out, and is otherwise chosen by the derived code:
  the success badge 200 for the status success, the failure badge 500 for the status
  failure, the failure badge "Error" for any other status. In the older page the badge
  of such a record is always chosen by the derived code. The icon of the detail card is
  chosen from the status.
\<close>

theorem fabricated_code_drives_classification:
  assumes "response_code e = None \<or> response_code e = Some 0"
  shows "statusCode (transformExecution rj e)
           = (if status e = ''success'' then 200 else if status e = ''failure'' then 500 else 0) \<and>
         i_statusCode (transformExecution_index e)
           = (if status e = ''success'' then 200 else if status e = ''failure'' then 500 else 0) \<and>
         success (summaryStats rq rp xs)
           = length (filter (\<lambda>x. codeClass (statusCode x) = SuccessStyled) xs) \<and>
         errorCount (summaryStats rq rp xs) = length xs - success (summaryStats rq rp xs) \<and>
         successRate (summaryStats rq rp xs)
           = (if length xs > 0 then rp (success (summaryStats rq rp xs)) (length xs) else 0) \<and>
         summaryStats rq rp (map (d_status_update f) xs) = summaryStats rq rp xs \<and>
         map bar_status (chartData xs)
           = map (\<lambda>x. if codeClass (statusCode x) = SuccessStyled then ''success'' else ''error'')
               (take 30 xs) \<and>
         success (summaryStats rq rp (executions rj ws))
           = length (filter (\<lambda>w. codeClass (statusCodeOf w) = SuccessStyled) ws) \<and>
         renderedBadge rj e
           = (if status e = ''queued'' then QueuedBadge
              else if status e = ''running'' then RunningBadge
              else if status e = ''timed_out'' then TimeoutBadge
              else if status e = ''success'' then SuccessBadge 200
              else if status e = ''failure'' then FailureBadge (Some 500)
              else FailureBadge None) \<and>
         renderedBadge_index e
           = (if status e = ''success'' then SuccessBadge 200
              else if status e = ''failure'' then FailureBadge (Some 500)
              else FailureBadge (Some 0)) \<and>
         renderedIcon rj e
           = (if status e = ''success'' then GreenCheckIcon
              else if status e = ''timed_out'' then OrangeAlertIcon
              else MutedAlertIcon)"
proof -
  have cc: "(codeClass c = SuccessStyled) = (200 \<le> c \<and> c < 300)" for c
    by (simp add: codeClass_def)
  have 1: "statusCodeOf e
           = (if status e = ''success'' then 200 else if status e = ''failure'' then 500 else 0)"
    using assms by (auto simp: statusCodeOf_def)
  have 2: "success (summaryStats rq rp xs)
           = length (filter (\<lambda>x. codeClass (statusCode x) = SuccessStyled) xs)" for xs
    by (simp add: summaryStats_def Let_def cc)
  have 3: "errorCount (summaryStats rq rp xs) = length xs - success (summaryStats rq rp xs)"
    by (simp add: summaryStats_def Let_def)
  have 4: "successRate (summaryStats rq rp xs)
           = (if length xs > 0 then rp (success (summaryStats rq rp xs)) (length xs) else 0)"
    by (simp add: summaryStats_def Let_def)
  have 5: "map bar_status (chartData xs)
           = map (\<lambda>x. if codeClass (statusCode x) = SuccessStyled then ''success'' else ''error'')
               (take 30 xs)"
  proof -
    have "map bar_status (chartData xs)
          = map (\<lambda>x. if codeClass (statusCode x) = SuccessStyled then ''success'' else ''error'')
              (map fst (zip (take 30 xs) [0 ..< 30]))"
      by (simp add: chartData_def cc comp_def case_prod_beta)
    also have "map fst (zip (take 30 xs) [0 ..< 30]) = take 30 xs"
      by (simp add: map_fst_zip_take min_def)
    finally show ?thesis .
  qed
  have 6: "success (summaryStats rq rp (executions rj ws))
           = length (filter (\<lambda>w. codeClass (statusCodeOf w) = SuccessStyled) ws)"
    using executions_success_count[of rj ws] by (simp add: summaryStats_def Let_def cc)
  have 7: "renderedBadge rj e
           = (if status e = ''queued'' then QueuedBadge
              else if status e = ''running'' then RunningBadge
              else if status e = ''timed_out'' then TimeoutBadge
              else if status e = ''success'' then SuccessBadge 200
              else if status e = ''failure'' then FailureBadge (Some 500)
              else FailureBadge None)"
    by (simp add: renderedBadge_def transformExecution_def getStatusBadge_def Let_def 1)
  have 8: "renderedBadge_index e
           = (if status e = ''success'' then SuccessBadge 200
              else if status e = ''failure'' then FailureBadge (Some 500)
              else FailureBadge (Some 0))"
    by (simp add: renderedBadge_index_def transformExecution_index_def getStatusBadge_index_def
          Let_def 1)
  have 9: "renderedIcon rj e
           = (if status e = ''success'' then GreenCheckIcon
              else if status e = ''timed_out'' then OrangeAlertIcon
              else MutedAlertIcon)"
    by (simp add: renderedIcon_def statusIcon_def transformExecution_def Let_def)
  have 10: "statusCode (transformExecution rj e) = statusCodeOf e"
    "i_statusCode (transformExecution_index e) = statusCodeOf e"
    by (simp_all add: transformExecution_def transformExecution_index_def Let_def)
  show ?thesis
    unfolding 10 1
    using 2[of xs] 3 4 5 6 7 8 9 summaryStats_status_irrelevant[of rq rp f xs]
    by (intro conjI) simp_all
qed

text \<open>
  A failed execution without a response code gets the code 500 and the failure badge
  500. Of three loaded records (failed, queued, and a success with the code 200) one
  counts as a success and two as errors.
\<close>

theorem fabricated_code_drives_classification_witness:
  "(response_code failedExecution = None \<or> response_code failedExecution = Some 0) \<and>
   statusCode (transformExecution noJson failedExecution) = 500 \<and>
   i_statusCode (transformExecution_index failedExecution) = 500 \<and>
   renderedBadge noJson failedExecution = FailureBadge (Some 500) \<and>
   renderedBadge_index failedExecution = FailureBadge (Some 500) \<and>
   renderedIcon noJson failedExecution = MutedAlertIcon \<and>
   success (summaryStats (\<lambda>a n. a div int n) (\<lambda>k n. int (100 * k div n))
              (executions noJson [failedExecution, queuedExecution, sampleExecution ''s1''])) = 1 \<and>
   errorCount (summaryStats (\<lambda>a n. a div int n) (\<lambda>k n. int (100 * k div n))
              (executions noJson [failedExecution, queuedExecution, sampleExecution ''s1''])) = 2"
proof -
  have h: "response_code failedExecution = None \<or> response_code failedExecution = Some 0"
    by (simp add: failedExecution_def)
  have s: "status failedExecution = ''failure''"
    by (simp add: failedExecution_def)
  have l: "length (executions noJson [failedExecution, queuedExecution, sampleExecution ''s1'']) = 3"
    by (simp add: executions_def)
  have c: "length (filter (\<lambda>w. codeClass (statusCodeOf w) = SuccessStyled)
             [failedExecution, queuedExecution, sampleExecution ''s1'']) = 1"
    by (simp add: codeClass_def statusCodeOf_def failedExecution_def queuedExecution_def
          sampleExecution_def)
  note main = fabricated_code_drives_classification[OF h, of noJson "\<lambda>a n. a div int n"
         "\<lambda>k n. int (100 * k div n)"
         "executions noJson [failedExecution, queuedExecution, sampleExecution ''s1'']"
         id "[failedExecution, queuedExecution, sampleExecution ''s1'']"]
  from main s have 1: "statusCode (transformExecution noJson failedExecution) = 500"
    by simp
  from main s have 2: "i_statusCode (transformExecution_index failedExecution) = 500"
    by simp
  from main c have 3: "success (summaryStats (\<lambda>a n. a div int n) (\<lambda>k n. int (100 * k div n))
              (executions noJson [failedExecution, queuedExecution, sampleExecution ''s1''])) = 1"
    by simp
  from main have "errorCount (summaryStats (\<lambda>a n. a div int n) (\<lambda>k n. int (100 * k div n))
              (executions noJson [failedExecution, queuedExecution, sampleExecution ''s1'']))
       = length (executions noJson [failedExecution, queuedExecution, sampleExecution ''s1''])
         - success (summaryStats (\<lambda>a n. a div int n) (\<lambda>k n. int (100 * k div n))
              (executions noJson [failedExecution, queuedExecution, sampleExecution ''s1'']))"
    by blast
  with l 3 have 4: "errorCount (summaryStats (\<lambda>a n. a div int n) (\<lambda>k n. int (100 * k div n))
              (executions noJson [failedExecution, queuedExecution, sampleExecution ''s1''])) = 2"
    by simp
  from main s have 5: "renderedBadge noJson failedExecution = FailureBadge (Some 500)"
    by simp
  from main s have 6: "renderedBadge_index failedExecution = FailureBadge (Some 500)"
    by simp
  from main s have 7: "renderedIcon noJson failedExecution = MutedAlertIcon"
    by simp
  from h 1 2 3 4 5 6 7 show ?thesis by blast
qed

section \<open>Properties of the cron utilities\<close>

subsection \<open>Descriptions of six-field expressions\<close>

text \<open>
  The description of a six-field expression by its second field, where cronstrue
  describes the other five fields as \<open>five\<close>.
\<close>

lemma describeText_second_field:
  assumes "toStr (joinSpace rest) = Some five"
  shows "describeText toStr cron (sec # rest) True =
     (if sec = js ''*'' then Some (js ''Every second'')
      else if startsWith sec (js ''*/'') then
        Some (js ''Every '' @ drop 2 sec @ js '' second''
              @ (if drop 2 sec \<noteq> js ''1'' then js ''s'' else [])
              @ (if includesStr (toLowerCase five) (js ''every minute'') then []
                 else js '', '' @ toLowerCase five))
      else if sec = js ''0'' then Some five
      else Some (five @ js '' at second '' @ sec))"
  using assms by (simp add: describeText_def Let_def)

lemma every_10_seconds:
  "description (describeCronExpression sampleParse sampleNext sampleFormat sampleToStr 100
                  (js ''*/10 * * * * *'')) = js ''Every 10 seconds''"
  by code_simp

text \<open>
  Claim C7, at the expression \<^verbatim>\<open>*/10 * * * 6-8 *\<close>. Its five-field part is described as
  "Every minute, June through August", which is not the text "every minute" but
  contains it; the description computed is "Every 10 seconds", without the suffix.
\<close>

theorem every_minute_suffix_dropped:
  "isValid (describeCronExpression sampleParse sampleNext sampleFormat sampleToStr 100
              (js ''*/10 * * * 6-8 *'')) \<and>
   sampleToStr (joinSpace (drop 1 (splitWs (trim (js ''*/10 * * * 6-8 *'')))))
     = Some (js ''Every minute, June through August'') \<and>
   description (describeCronExpression sampleParse sampleNext sampleFormat sampleToStr 100
                  (js ''*/10 * * * 6-8 *'')) = js ''Every 10 seconds''"
  by code_simp

subsection \<open>Next runs\<close>

lemma collectRuns_map: "collectRuns next fmt n it = map fmt (nextRunDates next n it)"
  by (induction n arbitrary: it) (simp_all split: option.split)

lemma nextRunDates_length: "length (nextRunDates next n it) \<le> n"
  by (induction n arbitrary: it) (simp_all split: option.split)

lemma nextRunDates_later:
  "calculatorAdvances next cur \<Longrightarrow> d \<in> set (nextRunDates next n it) \<Longrightarrow> cur it < d"
proof (induction n arbitrary: it)
  case 0
  then show ?case by simp
next
  case (Suc n)
  show ?case
  proof (cases "next it")
    case None
    with Suc.prems show ?thesis by simp
  next
    case (Some p)
    obtain d0 it' where p: "p = (d0, it')" by (cases p)
    from Suc.prems(1) Some p have adv: "cur it < d0" "cur it' = d0"
      by (simp_all add: calculatorAdvances_def)
    from Suc.prems(2) Some p have "d = d0 \<or> d \<in> set (nextRunDates next n it')" by simp
    then show ?thesis
    proof
      assume "d = d0" with adv show ?thesis by simp
    next
      assume "d \<in> set (nextRunDates next n it')"
      from Suc.IH[OF Suc.prems(1) this] adv show ?thesis by simp
    qed
  qed
qed

lemma nextRunDates_sorted:
  "calculatorAdvances next cur \<Longrightarrow> sorted_wrt (<) (nextRunDates next n it)"
proof (induction n arbitrary: it)
  case 0
  then show ?case by simp
next
  case (Suc n)
  show ?case
  proof (cases "next it")
    case None
    then show ?thesis by simp
  next
    case (Some p)
    obtain d0 it' where p: "p = (d0, it')" by (cases p)
    from Suc.prems Some p have adv: "cur it' = d0"
      by (simp add: calculatorAdvances_def)
    have "\<forall>d \<in> set (nextRunDates next n it'). d0 < d"
      using nextRunDates_later[OF Suc.prems] adv by auto
    with Suc.IH[OF Suc.prems] Some p show ?thesis by simp
  qed
qed

text \<open>
  The loop returns what the calculator yields up to its first failure, and no more
  than \<open>n\<close> dates: if the calculator yields the dates \<open>ds\<close> and then either \<open>n\<close> dates
  have been obtained or the next call fails, the loop's result is \<open>ds\<close>.
\<close>

lemma nextRunDates_occurrences:
  "occurrences next it ds it' \<Longrightarrow> length ds = n \<or> (length ds < n \<and> next it' = None) \<Longrightarrow>
   nextRunDates next n it = ds"
proof (induction ds arbitrary: it n)
  case Nil
  then show ?case by (cases n) simp_all
next
  case (Cons d ds)
  from Cons.prems(2) obtain m where n: "n = Suc m" by (cases n) auto
  from Cons.prems(1) obtain it0 where nx: "next it = Some (d, it0)"
    and rest: "occurrences next it0 ds it'"
    by (auto split: option.splits)
  from Cons.prems(2) n have "length ds = m \<or> (length ds < m \<and> next it' = None)" by auto
  from Cons.IH[OF rest this] nx n show ?case by simp
qed

text \<open>
  Claim C8. \<^verbatim>\<open>generateNextRuns\<close> returns at most 5 runs, the formatted dates of the
  projected instants. When the calculator yields fewer than 5 instants and then fails,
  exactly the instants obtained before the failure are returned, in the calculator's
  order; when it yields 5, these are returned; when the expression cannot be parsed,
  the result is the empty list. In no case is an error returned. With a calculator that
  keeps its promise (each \<^verbatim>\<open>next()\<close> is strictly later than the one before, the first
  strictly later than the reference instant), the projected instants are strictly
  increasing and each is strictly later than the reference instant.
\<close>

theorem next_runs_increasing:
  assumes "calculatorAdvances next cur" and "parserStartsAt parse cur"
  shows "length (generateNextRuns parse next fmt now cron hasSeconds) \<le> 5 \<and>
         generateNextRuns parse next fmt now cron hasSeconds
           = map (fmt now) (projectedDates parse next now cron hasSeconds) \<and>
         sorted_wrt (<) (projectedDates parse next now cron hasSeconds) \<and>
         (\<forall>d \<in> set (projectedDates parse next now cron hasSeconds). now < d) \<and>
         (\<forall>m. parse cron (Some now) hasSeconds = Inl m
               \<longrightarrow> generateNextRuns parse next fmt now cron hasSeconds = []) \<and>
         (\<forall>it ds it'.
             parse cron (Some now) hasSeconds = Inr it \<and> occurrences next it ds it' \<and>
             (length ds = 5 \<or> (length ds < 5 \<and> next it' = None))
             \<longrightarrow> projectedDates parse next now cron hasSeconds = ds \<and>
                 generateNextRuns parse next fmt now cron hasSeconds = map (fmt now) ds)"
proof -
  have partial: "projectedDates parse next now cron hasSeconds = ds \<and>
                 generateNextRuns parse next fmt now cron hasSeconds = map (fmt now) ds"
    if "parse cron (Some now) hasSeconds = Inr it" and "occurrences next it ds it'"
      and "length ds = 5 \<or> (length ds < 5 \<and> next it' = None)" for it ds it'
    using that(1) nextRunDates_occurrences[OF that(2) that(3)]
    by (simp add: generateNextRuns_def projectedDates_def collectRuns_map)
  show ?thesis
  proof (cases "parse cron (Some now) hasSeconds")
    case (Inl m)
    then show ?thesis
      by (simp add: generateNextRuns_def projectedDates_def)
  next
    case (Inr it)
    with assms(2) have c: "cur it = now"
      by (simp add: parserStartsAt_def)
    have later: "\<forall>d \<in> set (nextRunDates next 5 it). now < d"
      using nextRunDates_later[OF assms(1)] c by auto
    have main: "length (generateNextRuns parse next fmt now cron hasSeconds) \<le> 5 \<and>
         generateNextRuns parse next fmt now cron hasSeconds
           = map (fmt now) (projectedDates parse next now cron hasSeconds) \<and>
         sorted_wrt (<) (projectedDates parse next now cron hasSeconds) \<and>
         (\<forall>d \<in> set (projectedDates parse next now cron hasSeconds). now < d) \<and>
         (\<forall>m. parse cron (Some now) hasSeconds = Inl m
               \<longrightarrow> generateNextRuns parse next fmt now cron hasSeconds = [])"
      using later Inr nextRunDates_sorted[OF assms(1), of 5 it] nextRunDates_length[of "next" 5 it]
      by (simp add: generateNextRuns_def projectedDates_def collectRuns_map)
    from main partial show ?thesis by blast
  qed
qed

text \<open>
  The sample calculator stops after the instant 103: from 100 it yields 101, 102, 103
  and fails, and these three are the runs; from 96 it yields five; seven fields are not
  parsed and give no run.
\<close>

theorem next_runs_increasing_witness:
  "calculatorAdvances sampleNext id \<and> parserStartsAt sampleParse id \<and>
   sampleParse (js ''*/10 * * * * *'') (Some 100) True = Inr 100 \<and>
   occurrences sampleNext 100 [101, 102, 103] 103 \<and> sampleNext 103 = None \<and>
   projectedDates sampleParse sampleNext 100 (js ''*/10 * * * * *'') True = [101, 102, 103] \<and>
   generateNextRuns sampleParse sampleNext sampleFormat 100 (js ''*/10 * * * * *'') True
     = [js ''now+s'', js ''now+ss'', js ''now+sss''] \<and>
   length (generateNextRuns sampleParse sampleNext sampleFormat 100 (js ''*/10 * * * * *'') True)
     \<le> 5 \<and>
   sorted_wrt (<) (projectedDates sampleParse sampleNext 100 (js ''*/10 * * * * *'') True) \<and>
   list_all (\<lambda>d. 100 < d)
     (projectedDates sampleParse sampleNext 100 (js ''*/10 * * * * *'') True) \<and>
   projectedDates sampleParse sampleNext 96 (js ''*/10 * * * * *'') True
     = [97, 98, 99, 100, 101] \<and>
   sampleParse (js ''* * * * * * *'') (Some 100) False
     = Inl (Some (js ''Invalid cron expression, too many fields'')) \<and>
   generateNextRuns sampleParse sampleNext sampleFormat 100 (js ''* * * * * * *'') False = []"
proof -
  have a: "calculatorAdvances sampleNext id"
    by (simp add: calculatorAdvances_def sampleNext_def split: if_splits)
  have b: "parserStartsAt sampleParse id"
    by (simp add: parserStartsAt_def sampleParse_def split: if_splits)
  have p: "sampleParse (js ''*/10 * * * * *'') (Some 100) True = Inr 100"
    by code_simp
  have o: "occurrences sampleNext 100 [101, 102, 103] 103"
    by (simp add: sampleNext_def)
  have x: "sampleNext 103 = None"
    by (simp add: sampleNext_def)
  have f: "map (sampleFormat 100) [101, 102, 103] = [js ''now+s'', js ''now+ss'', js ''now+sss'']"
    by code_simp
  have d: "projectedDates sampleParse sampleNext 96 (js ''*/10 * * * * *'') True
           = [97, 98, 99, 100, 101]"
    by code_simp
  have e: "sampleParse (js ''* * * * * * *'') (Some 100) False
           = Inl (Some (js ''Invalid cron expression, too many fields''))"
    by code_simp
  note main = next_runs_increasing[OF a b, of sampleFormat 100 "js ''*/10 * * * * *''" True]
  from main have part: "\<forall>it ds it'.
      sampleParse (js ''*/10 * * * * *'') (Some 100) True = Inr it \<and>
      occurrences sampleNext it ds it' \<and>
      (length ds = 5 \<or> (length ds < 5 \<and> sampleNext it' = None))
      \<longrightarrow> projectedDates sampleParse sampleNext 100 (js ''*/10 * * * * *'') True = ds \<and>
          generateNextRuns sampleParse sampleNext sampleFormat 100 (js ''*/10 * * * * *'') True
            = map (sampleFormat 100) ds"
    by blast
  have pre: "sampleParse (js ''*/10 * * * * *'') (Some 100) True = Inr 100 \<and>
      occurrences sampleNext 100 [101, 102, 103] 103 \<and>
      (length [101, 102, 103::nat] = 5 \<or>
       (length [101, 102, 103::nat] < 5 \<and> sampleNext 103 = None))"
    using p o x by (intro conjI disjI2) simp_all
  from part[rule_format, OF pre]
  have c: "projectedDates sampleParse sampleNext 100 (js ''*/10 * * * * *'') True = [101, 102, 103]"
    "generateNextRuns sampleParse sampleNext sampleFormat 100 (js ''*/10 * * * * *'') True
       = map (sampleFormat 100) [101, 102, 103]"
    by (rule conjunct1, rule conjunct2)
  from next_runs_increasing[OF a b, of sampleFormat 100 "js ''* * * * * * *''" False] e
  have g: "generateNextRuns sampleParse sampleNext sampleFormat 100 (js ''* * * * * * *'') False
           = []"
    by blast
  have h: "length (generateNextRuns sampleParse sampleNext sampleFormat 100
             (js ''*/10 * * * * *'') True) \<le> 5"
    using main by blast
  have s: "sorted_wrt (<) (projectedDates sampleParse sampleNext 100 (js ''*/10 * * * * *'') True)"
    using main by blast
  have l: "list_all (\<lambda>d. 100 < d)
     (projectedDates sampleParse sampleNext 100 (js ''*/10 * * * * *'') True)"
    using main by (simp add: list_all_iff)
  from a b p o x c f d e g h s l show ?thesis by simp
qed

subsection \<open>Field counts\<close>

text \<open>
  Fields are separated by any white space of JavaScript: with a no-break space (U+00A0)
  between the first two fields, five fields are found.
\<close>

lemma no_break_space_separates:
  "splitWs (trim (js ''*'' @ [0xA0] @ js ''* * * *'')) = [js ''*'', js ''*'', js ''*'', js ''*'', js ''*''] \<and>
   parseError (parseCronExpression (js ''*'' @ [0xA0] @ js ''* * * *'')) = None \<and>
   splitWs (trim ([0xFEFF] @ js ''0 9'' @ [0x2028, 0x3000] @ js ''* * 1 '')) =
     [js ''0'', js ''9'', js ''*'', js ''*'', js ''1'']"
  by code_simp

text \<open>
  Claim C9, as stated, at concrete inputs. The expression \<^verbatim>\<open>* * *\<close> has three fields;
  the calculator fills in the missing ones and \<^verbatim>\<open>validateCronExpression\<close> reports it as
  valid. An expression of seven fields is rejected with the calculator's own message,
  which names neither "5 fields" nor "6 fields".
\<close>

theorem validate_field_count_counterexample:
  "length (splitWs (trim (js ''* * *''))) = 3 \<and>
   v_isValid (validateCronExpression sampleParse (js ''* * *'')) \<and>
   length (splitWs (trim (js ''* * * * * * *''))) = 7 \<and>
   v_error (validateCronExpression sampleParse (js ''* * * * * * *''))
     = Some (js ''Invalid cron expression, too many fields'') \<and>
   \<not> includesStr (js ''Invalid cron expression, too many fields'') (js ''5 fields'')"
  by code_simp

text \<open>
  Claim C9, amended. For an input whose number of white-space separated fields is
  neither 5 nor 6, \<^verbatim>\<open>parseCronExpression\<close> returns no fields and the error message that
  names "5 fields" and "6 fields". \<^verbatim>\<open>validateCronExpression\<close> returns a result for every
  input and never throws; the result is what the calculator decides: valid when it
  accepts the expression, and otherwise invalid with the calculator's message, or with
  "Invalid cron expression" when that message is missing or empty.
\<close>

theorem field_count_failure:
  assumes "length (splitWs (trim cron)) \<noteq> 5" and "length (splitWs (trim cron)) \<noteq> 6"
  shows "parsedFields (parseCronExpression cron) = None \<and>
         parseError (parseCronExpression cron) = Some fieldCountMessage \<and>
         includesStr fieldCountMessage (js ''5 fields'') \<and>
         includesStr fieldCountMessage (js ''6 fields'') \<and>
         validateCronExpression parse cron =
           (case parse cron None False of
              Inr it \<Rightarrow> \<lparr> v_isValid = True, v_error = None \<rparr>
            | Inl None \<Rightarrow> \<lparr> v_isValid = False, v_error = Some (js ''Invalid cron expression'') \<rparr>
            | Inl (Some m) \<Rightarrow>
                \<lparr> v_isValid = False,
                  v_error = Some (if m = [] then js ''Invalid cron expression'' else m) \<rparr>)"
proof -
  have i5: "includesStr fieldCountMessage (js ''5 fields'')" by code_simp
  have i6: "includesStr fieldCountMessage (js ''6 fields'')" by code_simp
  have p: "parseCronExpression cron
           = \<lparr> parsedFields = None, parseError = Some fieldCountMessage \<rparr>"
    using assms by (simp add: parseCronExpression_def Let_def)
  have v: "validateCronExpression parse cron =
           (case parse cron None False of
              Inr it \<Rightarrow> \<lparr> v_isValid = True, v_error = None \<rparr>
            | Inl None \<Rightarrow> \<lparr> v_isValid = False, v_error = Some (js ''Invalid cron expression'') \<rparr>
            | Inl (Some m) \<Rightarrow>
                \<lparr> v_isValid = False,
                  v_error = Some (if m = [] then js ''Invalid cron expression'' else m) \<rparr>)"
    using assms(2) by (simp add: validateCronExpression_def Let_def split: sum.split option.split)
  from i5 i6 p v show ?thesis by simp
qed

theorem field_count_failure_witness:
  "length (splitWs (trim (js ''* * *''))) \<noteq> 5 \<and> length (splitWs (trim (js ''* * *''))) \<noteq> 6 \<and>
   parsedFields (parseCronExpression (js ''* * *'')) = None \<and>
   parseError (parseCronExpression (js ''* * *'')) = Some fieldCountMessage \<and>
   validateCronExpression sampleParse (js ''* * *'') = \<lparr> v_isValid = True, v_error = None \<rparr>"
proof -
  have a: "length (splitWs (trim (js ''* * *''))) \<noteq> 5" by code_simp
  have b: "length (splitWs (trim (js ''* * *''))) \<noteq> 6" by code_simp
  have c: "sampleParse (js ''* * *'') None False = Inr 0" by code_simp
  from field_count_failure[OF a b, of sampleParse] a b c show ?thesis by simp
qed

end
